theory Spec2Isabelle
  imports Complex_Main "HOL-Library.Multiset"
begin

section \<open>Data model\<close>

text \<open>
  Python floats are modelled as extended reals with a not-a-number value: a finite value
  carries the real it denotes, and comparisons and arithmetic follow IEEE 754 on the
  special values (every comparison with \<open>NaN\<close> is false). Rounding to binary64 is not
  modelled.
\<close>

datatype pyfloat = Fin real | PInf | NInf | NaN

fun flt :: "pyfloat \<Rightarrow> pyfloat \<Rightarrow> bool" where
  "flt (Fin a) (Fin b) = (a < b)"
| "flt (Fin a) PInf = True"
| "flt NInf (Fin b) = True"
| "flt NInf PInf = True"
| "flt _ _ = False"

fun fle :: "pyfloat \<Rightarrow> pyfloat \<Rightarrow> bool" where
  "fle (Fin a) (Fin b) = (a \<le> b)"
| "fle (Fin a) PInf = True"
| "fle NInf (Fin b) = True"
| "fle NInf PInf = True"
| "fle PInf PInf = True"
| "fle NInf NInf = True"
| "fle _ _ = False"

fun fadd :: "pyfloat \<Rightarrow> pyfloat \<Rightarrow> pyfloat" where
  "fadd (Fin a) (Fin b) = Fin (a + b)"
| "fadd NaN _ = NaN"
| "fadd _ NaN = NaN"
| "fadd PInf NInf = NaN"
| "fadd NInf PInf = NaN"
| "fadd PInf _ = PInf"
| "fadd NInf _ = NInf"
| "fadd _ PInf = PInf"
| "fadd _ NInf = NInf"

fun fneg :: "pyfloat \<Rightarrow> pyfloat" where
  "fneg (Fin a) = Fin (- a)"
| "fneg PInf = NInf"
| "fneg NInf = PInf"
| "fneg NaN = NaN"

definition fsub :: "pyfloat \<Rightarrow> pyfloat \<Rightarrow> pyfloat" where
  "fsub a b = fadd a (fneg b)"

text \<open>
  A buffered row \<open>{"ts": ..., "temperature": ..., "humidity": ...}\<close>. Instants are
  integer microsecond counts, the resolution of \<open>datetime\<close>.
\<close>

record sample =
  ts :: int
  temperature :: pyfloat
  humidity :: pyfloat

definition MAX_POINTS :: nat where
  "MAX_POINTS = 1500"

definition UPDATE_INTERVAL_MS :: nat where
  "UPDATE_INTERVAL_MS = 2000"

section \<open>Sample store\<close>

text \<open>
  \<open>collections.deque(maxlen=n).append(x)\<close>: the item is added on the right and, when the
  deque is then longer than \<open>maxlen\<close>, one item is removed from the left.
\<close>

definition deque_append :: "nat \<Rightarrow> 'a list \<Rightarrow> 'a \<Rightarrow> 'a list" where
  "deque_append maxlen d x = (let d' = d @ [x] in if maxlen < length d' then tl d' else d')"

text \<open>
  \<open>safe_append(t, h)\<close>; the value of \<open>datetime.utcnow()\<close> at the call is the argument
  \<open>now\<close>, and the global \<open>buffer\<close> is passed in and returned. The lock makes the call one
  atomic step, which is how it is modelled.
\<close>

definition safe_append :: "int \<Rightarrow> pyfloat \<Rightarrow> pyfloat \<Rightarrow> sample list \<Rightarrow> sample list" where
  "safe_append now t h buffer =
     deque_append MAX_POINTS buffer \<lparr>ts = now, temperature = t, humidity = h\<rparr>"

text \<open>A sequence of calls \<open>safe_append(t, h)\<close>, each with the clock value it reads.\<close>

fun appends :: "(int \<times> pyfloat \<times> pyfloat) list \<Rightarrow> sample list \<Rightarrow> sample list" where
  "appends [] buffer = buffer"
| "appends ((now, t, h) # rs) buffer = appends rs (safe_append now t h buffer)"

definition row :: "int \<times> pyfloat \<times> pyfloat \<Rightarrow> sample" where
  "row r = (case r of (now, t, h) \<Rightarrow> \<lparr>ts = now, temperature = t, humidity = h\<rparr>)"

section \<open>Exceptions\<close>

text \<open>
  The subclasses of \<open>Exception\<close> that the modelled operations raise. A computation
  that may raise returns \<open>exn + 'a\<close>, with \<open>Inl\<close> the exception.
\<close>

datatype exn =
    ValueError | UnicodeDecodeError | UnicodeEncodeError | KeyError | IndexError | SyntaxError
  | OtherError string

fun exn_bind :: "exn + 'a \<Rightarrow> ('a \<Rightarrow> exn + 'b) \<Rightarrow> exn + 'b" where
  "exn_bind (Inl e) f = Inl e"
| "exn_bind (Inr x) f = f x"

section \<open>Snapshot and window query\<close>

text \<open>
  A \<open>pandas.DataFrame\<close> built from the buffered rows: its column labels and its rows in
  order. \<open>pd.DataFrame(rows)\<close> takes the labels from the keys of the dictionaries, so a
  frame built from no rows has no columns; \<open>pd.DataFrame(columns=[...])\<close> has the given
  labels and no rows. Selecting a column that the frame does not have raises \<open>KeyError\<close>.
\<close>

record frame =
  columns :: "string list"
  rows :: "sample list"

definition DataFrame :: "sample list \<Rightarrow> frame" where
  "DataFrame rs =
     \<lparr>columns = (if rs = [] then [] else [''ts'', ''temperature'', ''humidity'']), rows = rs\<rparr>"

definition DataFrame_columns :: "string list \<Rightarrow> frame" where
  "DataFrame_columns cs = \<lparr>columns = cs, rows = []\<rparr>"

definition column :: "frame \<Rightarrow> string \<Rightarrow> exn + unit" where
  "column df name = (if name \<in> set (columns df) then Inr () else Inl KeyError)"

text \<open>\<open>df[df["ts"] > c]\<close>: the rows later than \<open>c\<close>, in their order, under the same labels.\<close>

definition ts_after :: "frame \<Rightarrow> int \<Rightarrow> exn + frame" where
  "ts_after df c =
     exn_bind (column df ''ts'') (\<lambda>_. Inr (df\<lparr>rows := filter (\<lambda>r. c < ts r) (rows df)\<rparr>))"

text \<open>
  \<open>df.sort_values("ts")\<close>. Pandas does not fix the order of rows with equal keys; the
  model sorts stably, and the properties below use only that the result is sorted and
  holds the same rows.
\<close>

definition sort_values_ts :: "frame \<Rightarrow> exn + frame" where
  "sort_values_ts df =
     exn_bind (column df ''ts'') (\<lambda>_. Inr (df\<lparr>rows := sort_key ts (rows df)\<rparr>))"

text \<open>\<open>timedelta(minutes=mins)\<close> in microseconds.\<close>

definition minutes :: "int \<Rightarrow> int" where
  "minutes mins = mins * 60000000"

text \<open>
  \<open>df_buf(mins)\<close>. \<open>now\<close> is the value \<open>datetime.utcnow()\<close> returns when the filter is
  evaluated. \<open>pd.to_datetime\<close> leaves the instants as they are, but reads the column.
\<close>

definition df_buf :: "int \<Rightarrow> sample list \<Rightarrow> int \<Rightarrow> exn + frame" where
  "df_buf now buffer mins =
     (let rows = buffer in
      if rows = [] then Inr (DataFrame_columns [''ts'', ''temperature'', ''humidity''])
      else
        exn_bind (Inr (DataFrame rows)) (\<lambda>df.
        exn_bind (column df ''ts'') (\<lambda>_.
        exn_bind (if 0 < mins then ts_after df (now - minutes mins) else Inr df) (\<lambda>df.
        sort_values_ts df))))"

section \<open>Helpers\<close>

definition isna :: "pyfloat \<Rightarrow> bool" where
  "isna x = (x = NaN)"

text \<open>
  \<open>safe_range(lo, hi, expand)\<close> on float arguments, for which no operation of the body
  raises, so the handler is never entered.
\<close>

definition safe_range :: "pyfloat \<Rightarrow> pyfloat \<Rightarrow> pyfloat \<Rightarrow> pyfloat \<times> pyfloat" where
  "safe_range lo hi expand =
     (if isna lo \<or> isna hi then (Fin 0, Fin 1)
      else if fle hi lo then (let v = lo in (fsub v expand, fadd v expand))
      else (lo, hi))"

section \<open>Ingestion\<close>

text \<open>
  The payload of a message is a byte string. A Python \<open>str\<close> is represented by its UTF-8
  encoding, so \<open>payload.decode()\<close> returns the bytes it is given when they are well-formed
  UTF-8 and raises \<open>UnicodeDecodeError\<close> otherwise.
\<close>

definition byte :: "char \<Rightarrow> nat" where
  "byte c = of_char c"

definition cont :: "char \<Rightarrow> bool" where
  "cont c = (128 \<le> byte c \<and> byte c \<le> 191)"

fun utf8_valid :: "string \<Rightarrow> bool" where
  "utf8_valid [] = True"
| "utf8_valid (c # cs) =
     (let b = byte c in
      if b < 128 then utf8_valid cs
      else if 194 \<le> b \<and> b \<le> 223 then
        (case cs of c1 # r \<Rightarrow> cont c1 \<and> utf8_valid r | _ \<Rightarrow> False)
      else if 224 \<le> b \<and> b \<le> 239 then
        (case cs of c1 # c2 # r \<Rightarrow>
           cont c1 \<and> (if b = 224 then 160 \<le> byte c1 else True)
           \<and> (if b = 237 then byte c1 \<le> 159 else True)
           \<and> cont c2 \<and> utf8_valid r
         | _ \<Rightarrow> False)
      else if 240 \<le> b \<and> b \<le> 244 then
        (case cs of c1 # c2 # c3 # r \<Rightarrow>
           cont c1 \<and> (if b = 240 then 144 \<le> byte c1 else True)
           \<and> (if b = 244 then byte c1 \<le> 143 else True)
           \<and> cont c2 \<and> cont c3 \<and> utf8_valid r
         | _ \<Rightarrow> False)
      else False)"

definition decode :: "string \<Rightarrow> exn + string" where
  "decode bs = (if utf8_valid bs then Inr bs else Inl UnicodeDecodeError)"

text \<open>
  \<open>s.split(",")\<close>: the fields between the separators, at least one. In well-formed UTF-8
  the byte of the comma occurs only as the comma.
\<close>

fun split_on :: "char \<Rightarrow> string \<Rightarrow> string list" where
  "split_on sep [] = [[]]"
| "split_on sep (c # cs) =
     (if c = sep then [] # split_on sep cs
      else (case split_on sep cs of f # fs \<Rightarrow> (c # f) # fs | [] \<Rightarrow> [[c]]))"

text \<open>
  The builtin \<open>float\<close> applied to a \<open>str\<close> is a parameter \<open>pfloat\<close> of the model: \<open>None\<close>
  where it raises \<open>ValueError\<close>.
\<close>

definition py_call :: "(string \<Rightarrow> pyfloat option) \<Rightarrow> string \<Rightarrow> exn + pyfloat" where
  "py_call pfloat s = (case pfloat s of None \<Rightarrow> Inl ValueError | Some x \<Rightarrow> Inr x)"

text \<open>
  \<open>t, h = map(f, xs)\<close>: the map is lazy, so \<open>f\<close> is applied to an item when the unpacking
  asks for it, and a missing or a surplus item raises \<open>ValueError\<close>.
\<close>

definition unpack2 :: "('a \<Rightarrow> exn + 'b) \<Rightarrow> 'a list \<Rightarrow> exn + ('b \<times> 'b)" where
  "unpack2 f xs =
     (case xs of
        [] \<Rightarrow> Inl ValueError
      | a # xs1 \<Rightarrow> exn_bind (f a) (\<lambda>t.
          case xs1 of
            [] \<Rightarrow> Inl ValueError
          | b # xs2 \<Rightarrow> exn_bind (f b) (\<lambda>h.
              case xs2 of
                [] \<Rightarrow> Inr (t, h)
              | c # _ \<Rightarrow> exn_bind (f c) (\<lambda>_. Inl ValueError))))"

text \<open>\<open>-10 < t < 60 and 0 <= h <= 100\<close>\<close>

definition in_range :: "pyfloat \<Rightarrow> pyfloat \<Rightarrow> bool" where
  "in_range t h = (flt (Fin (- 10)) t \<and> flt t (Fin 60) \<and> fle (Fin 0) h \<and> fle h (Fin 100))"

text \<open>The guarded call of \<open>on_message\<close>: \<open>if ...: safe_append(t, h)\<close>.\<close>

definition checked_append :: "int \<Rightarrow> pyfloat \<Rightarrow> pyfloat \<Rightarrow> sample list \<Rightarrow> sample list" where
  "checked_append now t h buffer = (if in_range t h then safe_append now t h buffer else buffer)"

text \<open>The body of the \<open>try\<close> statement of \<open>on_message\<close>.\<close>

definition on_message_try ::
  "(string \<Rightarrow> pyfloat option) \<Rightarrow> int \<Rightarrow> string \<Rightarrow> sample list \<Rightarrow> exn + sample list" where
  "on_message_try pfloat now payload buffer =
     exn_bind (decode payload) (\<lambda>s.
     exn_bind (unpack2 (py_call pfloat) (take 2 (split_on CHR '','' s))) (\<lambda>(t, h).
       Inr (checked_append now t h buffer)))"

text \<open>
  \<open>on_message(_, __, msg)\<close>. The handler prints the exception \<open>e\<close>; the print itself
  raises on a standard output that cannot take the text, and \<open>printing e\<close> is the exception
  it then raises, \<open>None\<close> when it prints. After the print the callback returns with the
  buffer as it was; an exception raised by the print leaves the callback.
\<close>

definition on_message ::
  "(string \<Rightarrow> pyfloat option) \<Rightarrow> (exn \<Rightarrow> exn option) \<Rightarrow> int \<Rightarrow> string \<Rightarrow> sample list
     \<Rightarrow> exn + sample list" where
  "on_message pfloat printing now payload buffer =
     (case on_message_try pfloat now payload buffer of
        Inl e \<Rightarrow> (case printing e of None \<Rightarrow> Inr buffer | Some e' \<Rightarrow> Inl e')
      | Inr buffer' \<Rightarrow> Inr buffer')"

text \<open>A standard output on which every print succeeds.\<close>

definition prints :: "exn \<Rightarrow> exn option" where
  "prints e = None"

subsection \<open>The specification's acceptance condition\<close>

text \<open>
  In the words of the specification: the first two comma-separated fields of the raw
  message parse as floats \<open>t\<close> and \<open>h\<close>, and \<open>-10 < t < 60\<close> and \<open>0 \<le> h \<le> 100\<close>. Nothing
  is asked of the rest of the message.
\<close>

definition spec_fields :: "(string \<Rightarrow> pyfloat option) \<Rightarrow> string \<Rightarrow> (pyfloat \<times> pyfloat) option" where
  "spec_fields pfloat payload =
     (case split_on CHR '','' payload of
        f1 # f2 # _ \<Rightarrow>
          (case pfloat f1 of
             None \<Rightarrow> None
           | Some t \<Rightarrow> (case pfloat f2 of None \<Rightarrow> None | Some h \<Rightarrow> Some (t, h)))
      | _ \<Rightarrow> None)"

definition spec_bounds :: "pyfloat \<Rightarrow> pyfloat \<Rightarrow> bool" where
  "spec_bounds t h =
     (case t of
        Fin x \<Rightarrow> (case h of Fin y \<Rightarrow> - 10 < x \<and> x < 60 \<and> 0 \<le> y \<and> y \<le> 100 | _ \<Rightarrow> False)
      | _ \<Rightarrow> False)"

subsection \<open>A decimal reader for \<open>float\<close>\<close>

text \<open>
  \<open>py_float\<close> reads ASCII text by the grammar of \<open>float(str)\<close>: surrounding white space,
  an optional sign, then \<open>inf\<close>, \<open>infinity\<close> or \<open>nan\<close> in any case, or decimal digits with an
  optional point and exponent; an underscore may stand between two digits. Its value is
  the decimal number itself, which is the value of \<open>float\<close> whenever that number is a
  binary64 value. It instantiates \<open>pfloat\<close> for the concrete messages below.
\<close>

definition is_space :: "char \<Rightarrow> bool" where
  "is_space c = ((9 \<le> byte c \<and> byte c \<le> 13) \<or> (28 \<le> byte c \<and> byte c \<le> 32))"

definition is_digit :: "char \<Rightarrow> bool" where
  "is_digit c = (48 \<le> byte c \<and> byte c \<le> 57)"

definition to_lower :: "char \<Rightarrow> char" where
  "to_lower c = (if 65 \<le> byte c \<and> byte c \<le> 90 then char_of (byte c + 32) else c)"

fun underscores_ok :: "char \<Rightarrow> string \<Rightarrow> bool" where
  "underscores_ok prev [] = (prev \<noteq> CHR ''_'')"
| "underscores_ok prev (c # cs) =
     (if c = CHR ''_'' then is_digit prev \<and> underscores_ok c cs
      else (if prev = CHR ''_'' then is_digit c else True) \<and> underscores_ok c cs)"

definition strip :: "string \<Rightarrow> string" where
  "strip s = rev (dropWhile is_space (rev (dropWhile is_space s)))"

definition digits_value :: "string \<Rightarrow> nat" where
  "digits_value ds = foldl (\<lambda>a c. 10 * a + (byte c - 48)) 0 ds"

definition parse_sign :: "string \<Rightarrow> bool \<times> string" where
  "parse_sign s =
     (case s of
        [] \<Rightarrow> (False, [])
      | c # r \<Rightarrow>
          if c = CHR ''-'' then (True, r) else if c = CHR ''+'' then (False, r) else (False, s))"

definition parse_number :: "string \<Rightarrow> real option" where
  "parse_number s =
     (let ip = takeWhile is_digit s;
          r1 = dropWhile is_digit s;
          dot = (r1 \<noteq> [] \<and> hd r1 = CHR ''.'');
          fp = (if dot then takeWhile is_digit (tl r1) else []);
          r2 = (if dot then dropWhile is_digit (tl r1) else r1);
          m = real (digits_value (ip @ fp)) / 10 ^ length fp
      in if ip = [] \<and> fp = [] then None
         else if r2 = [] then Some m
         else if hd r2 = CHR ''e'' \<or> hd r2 = CHR ''E'' then
           (case parse_sign (tl r2) of (neg, r3) \<Rightarrow>
              if r3 \<noteq> [] \<and> list_all is_digit r3
              then Some (if neg then m / 10 ^ digits_value r3 else m * 10 ^ digits_value r3)
              else None)
         else None)"

definition py_float :: "string \<Rightarrow> pyfloat option" where
  "py_float s =
     (if \<not> underscores_ok (CHR 0x00) s then None
      else
        (case parse_sign (strip (filter (\<lambda>c. c \<noteq> CHR ''_'') s)) of (neg, r) \<Rightarrow>
           let l = map to_lower r in
           if l = ''inf'' \<or> l = ''infinity'' then Some (if neg then NInf else PInf)
           else if l = ''nan'' then Some NaN
           else map_option (\<lambda>x. Fin (if neg then - x else x)) (parse_number r)))"

section \<open>Simulation\<close>

text \<open>
  \<open>random.uniform(a, b)\<close> is \<open>a + (b - a) * random()\<close>; \<open>r\<close> is the value that
  \<open>random()\<close> returns, a float with \<open>0 \<le> r < 1\<close>. All operands are finite.
\<close>

definition uniform :: "real \<Rightarrow> real \<Rightarrow> real \<Rightarrow> real" where
  "uniform a b r = a + (b - a) * r"

definition unit_draw :: "real \<Rightarrow> bool" where
  "unit_draw r = (0 \<le> r \<and> r < 1)"

text \<open>
  One pass of the loop of \<open>simulate\<close>: the two draws in the order of the call, and the
  clock value that \<open>safe_append\<close> reads. The wait on \<open>stop_evt\<close> changes nothing.
\<close>

definition simulate_step :: "real \<Rightarrow> real \<Rightarrow> int \<Rightarrow> sample list \<Rightarrow> sample list" where
  "simulate_step r1 r2 now buffer =
     safe_append now (Fin (29 + uniform (- 0.5) 0.5 r1)) (Fin (80 + uniform (- 0.5) 0.5 r2)) buffer"

text \<open>\<open>simulate()\<close>: the passes made before \<open>stop_evt\<close> is set.\<close>

fun simulate :: "(real \<times> real \<times> int) list \<Rightarrow> sample list \<Rightarrow> sample list" where
  "simulate [] buffer = buffer"
| "simulate ((r1, r2, now) # ticks) buffer = simulate ticks (simulate_step r1 r2 now buffer)"

subsection \<open>The two producers\<close>

text \<open>
  What reaches the store: a message delivered to \<open>on_message\<close>, or a pass of the
  simulation loop. An exception that leaves \<open>on_message\<close> leaves the buffer as it is.
\<close>

datatype event = Message string int | Tick real real int

fun produce ::
  "(string \<Rightarrow> pyfloat option) \<Rightarrow> (exn \<Rightarrow> exn option) \<Rightarrow> event \<Rightarrow> sample list \<Rightarrow> sample list" where
  "produce pfloat printing (Message payload now) buffer =
     (case on_message pfloat printing now payload buffer of
        Inl e \<Rightarrow> buffer
      | Inr buffer' \<Rightarrow> buffer')"
| "produce pfloat printing (Tick r1 r2 now) buffer = simulate_step r1 r2 now buffer"

fun run ::
  "(string \<Rightarrow> pyfloat option) \<Rightarrow> (exn \<Rightarrow> exn option) \<Rightarrow> event list \<Rightarrow> sample list
     \<Rightarrow> sample list" where
  "run pfloat printing [] buffer = buffer"
| "run pfloat printing (e # es) buffer = run pfloat printing es (produce pfloat printing e buffer)"

fun event_ok :: "event \<Rightarrow> bool" where
  "event_ok (Message payload now) = True"
| "event_ok (Tick r1 r2 now) = (unit_draw r1 \<and> unit_draw r2)"

definition within_bounds :: "sample \<Rightarrow> bool" where
  "within_bounds s = spec_bounds (temperature s) (humidity s)"

section \<open>Derived analytics\<close>

text \<open>\<open>df[name]\<close> for the two float columns.\<close>

definition series :: "frame \<Rightarrow> string \<Rightarrow> exn + pyfloat list" where
  "series df name =
     (if name \<notin> set (columns df) then Inl KeyError
      else if name = ''temperature'' then Inr (map temperature (rows df))
      else if name = ''humidity'' then Inr (map humidity (rows df))
      else Inl KeyError)"

text \<open>
  \<open>DataFrame.corr()\<close> (Pearson, \<open>min_periods=1\<close>) as pandas computes it: for each pair of
  columns, one pass of Welford's method over the rows where both values are finite; the
  entry is \<open>NaN\<close> when no row is left or the divisor is zero. For a frame of two columns
  the result is a matrix of two rows and two columns. Pandas' clipping of the entry to
  [-1, 1] changes nothing in exact arithmetic and is left out.
\<close>

record welford =
  nobs :: nat
  meanx :: real
  meany :: real
  ssqdm_x :: real
  ssqdm_y :: real
  covxy :: real

definition welford_step :: "welford \<Rightarrow> real \<times> real \<Rightarrow> welford" where
  "welford_step w p =
     (case p of (vx, vy) \<Rightarrow>
        (let n = nobs w + 1;
             dx = vx - meanx w;
             dy = vy - meany w;
             mx = meanx w + 1 / real n * dx;
             my = meany w + 1 / real n * dy
         in \<lparr>nobs = n, meanx = mx, meany = my,
             ssqdm_x = ssqdm_x w + (vx - mx) * dx,
             ssqdm_y = ssqdm_y w + (vy - my) * dy,
             covxy = covxy w + (vx - mx) * dy\<rparr>))"

fun finite_pairs :: "pyfloat list \<Rightarrow> pyfloat list \<Rightarrow> (real \<times> real) list" where
  "finite_pairs (Fin x # xs) (Fin y # ys) = (x, y) # finite_pairs xs ys"
| "finite_pairs (_ # xs) (_ # ys) = finite_pairs xs ys"
| "finite_pairs _ _ = []"

definition nancorr :: "pyfloat list \<Rightarrow> pyfloat list \<Rightarrow> pyfloat" where
  "nancorr xs ys =
     (let w = foldl welford_step
                \<lparr>nobs = 0, meanx = 0, meany = 0, ssqdm_x = 0, ssqdm_y = 0, covxy = 0\<rparr>
                (finite_pairs xs ys)
      in if nobs w < 1 then NaN
         else (let divisor = sqrt (ssqdm_x w * ssqdm_y w)
               in if divisor \<noteq> 0 then Fin (covxy w / divisor) else NaN))"

definition corr :: "frame \<Rightarrow> exn + pyfloat list list" where
  "corr df =
     exn_bind (series df ''temperature'') (\<lambda>t.
     exn_bind (series df ''humidity'') (\<lambda>h.
       Inr [[nancorr t t, nancorr h t], [nancorr h t, nancorr h h]]))"

text \<open>
  \<open>c = df[["temperature","humidity"]].corr()\<close> followed by
  \<open>if c.shape != (2,2): c = pd.DataFrame([[1.0,0.0],[0.0,1.0]], ...)\<close>.
\<close>

definition shape :: "'a list list \<Rightarrow> nat \<times> nat" where
  "shape m = (length m, case m of [] \<Rightarrow> 0 | r # _ \<Rightarrow> length r)"

definition correlation :: "frame \<Rightarrow> exn + pyfloat list list" where
  "correlation df =
     exn_bind (corr df) (\<lambda>c.
       Inr (if shape c \<noteq> (2, 2) then [[Fin 1, Fin 0], [Fin 0, Fin 1]] else c))"

section \<open>The polling update as shipped\<close>

text \<open>
  Line 236 of the file stands in the \<open>try\<close> body of \<open>update\<close>, between the statement that
  sets \<open>c\<close> and the one that builds the heat map \<open>cf\<close>.
\<close>

definition line_236 :: string where
  "line_236 = ''        FINAL fixed heatmap''"

text \<open>
  What compiling a file makes of a physical line that continues no other line. A blank
  line and a comment are skipped. A line that begins with two names separated by blanks,
  neither of them a keyword, is no statement, and compiling the file raises
  \<open>SyntaxError\<close>. Lines of any other form are not judged here.
\<close>

definition is_blank :: "char \<Rightarrow> bool" where
  "is_blank c = (c = CHR '' '' \<or> c = CHR 0x09)"

definition is_name_start :: "char \<Rightarrow> bool" where
  "is_name_start c =
     ((65 \<le> byte c \<and> byte c \<le> 90) \<or> (97 \<le> byte c \<and> byte c \<le> 122) \<or> c = CHR ''_'')"

definition is_name_char :: "char \<Rightarrow> bool" where
  "is_name_char c = (is_name_start c \<or> is_digit c)"

definition py_keywords :: "string list" where
  "py_keywords =
     [''False'', ''None'', ''True'', ''and'', ''as'', ''assert'', ''async'', ''await'',
      ''break'', ''class'', ''continue'', ''def'', ''del'', ''elif'', ''else'', ''except'',
      ''finally'', ''for'', ''from'', ''global'', ''if'', ''import'', ''in'', ''is'',
      ''lambda'', ''nonlocal'', ''not'', ''or'', ''pass'', ''raise'', ''return'', ''try'',
      ''while'', ''with'', ''yield'', ''match'', ''case'', ''type'']"

datatype line_form = Blank_line | Comment_line | Two_names string string | Other_line

definition form_of :: "string \<Rightarrow> line_form" where
  "form_of line =
     (let s = dropWhile is_blank line in
      if s = [] then Blank_line
      else if hd s = CHR ''#'' then Comment_line
      else
        (let w1 = takeWhile is_name_char s;
             r = dropWhile is_blank (dropWhile is_name_char s);
             w2 = takeWhile is_name_char r
         in if is_name_start (hd s) \<and> r \<noteq> [] \<and> is_name_start (hd r)
            then Two_names w1 w2 else Other_line))"

definition compile_line :: "string \<Rightarrow> exn + unit" where
  "compile_line line =
     (case form_of line of
        Two_names w1 w2 \<Rightarrow>
          if w1 \<in> set py_keywords \<or> w2 \<in> set py_keywords then Inr () else Inl SyntaxError
      | _ \<Rightarrow> Inr ())"

text \<open>
  A file is compiled as a whole before any statement of it runs, so what a poll does,
  \<open>update\<close> with its \<open>try\<close> and its handler included, comes after the compiling of line 236.
\<close>

definition shipped :: "exn + 'a \<Rightarrow> exn + 'a" where
  "shipped poll = exn_bind (compile_line line_236) (\<lambda>_. poll)"

section \<open>The store and its snapshots as objects\<close>

text \<open>
  The objects behind the store, to follow what a query shares with it. The heap is the
  list of objects allocated so far and an address is a position in it. The global
  \<open>buffer\<close> is the address \<open>b\<close> of a deque of references to the row dictionaries;
  \<open>list(buffer)\<close> is a new list of the same references, and a \<open>DataFrame\<close> holds the values
  of the rows it is built from, not references to them.
\<close>

type_synonym addr = nat

datatype obj = Deque "addr list" | Dict sample | PyList "addr list" | Frame frame

type_synonym heap = "obj list"

definition alloc :: "obj \<Rightarrow> heap \<Rightarrow> addr \<times> heap" where
  "alloc ob hp = (length hp, hp @ [ob])"

definition lookup :: "heap \<Rightarrow> addr \<Rightarrow> obj option" where
  "lookup hp a = (if a < length hp then Some (hp ! a) else None)"

definition read_dict :: "heap \<Rightarrow> addr \<Rightarrow> sample option" where
  "read_dict hp a = (case lookup hp a of Some (Dict s) \<Rightarrow> Some s | _ \<Rightarrow> None)"

text \<open>\<open>safe_append(t, h)\<close> on the heap: a new dictionary, appended to the deque in place.\<close>

definition heap_safe_append :: "addr \<Rightarrow> int \<Rightarrow> pyfloat \<Rightarrow> pyfloat \<Rightarrow> heap \<Rightarrow> heap" where
  "heap_safe_append b now t h hp =
     (case alloc (Dict \<lparr>ts = now, temperature = t, humidity = h\<rparr>) hp of
        (d, hp1) \<Rightarrow>
          (case lookup hp1 b of
             Some (Deque refs) \<Rightarrow> hp1[b := Deque (deque_append MAX_POINTS refs d)]
           | _ \<Rightarrow> hp1))"

fun heap_appends :: "addr \<Rightarrow> (int \<times> pyfloat \<times> pyfloat) list \<Rightarrow> heap \<Rightarrow> heap" where
  "heap_appends b [] hp = hp"
| "heap_appends b ((now, t, h) # rs) hp = heap_appends b rs (heap_safe_append b now t h hp)"

text \<open>
  \<open>df_buf(mins)\<close> on the heap. Every frame operation of \<open>df_buf\<close> returns a new frame;
  an exception ends the call with the heap as it then is.
\<close>

definition alloc_frame :: "exn + frame \<Rightarrow> heap \<Rightarrow> (exn + addr) \<times> heap" where
  "alloc_frame r hp =
     (case r of
        Inl e \<Rightarrow> (Inl e, hp)
      | Inr df \<Rightarrow> (case alloc (Frame df) hp of (a, hp') \<Rightarrow> (Inr a, hp')))"

definition heap_df_buf :: "addr \<Rightarrow> int \<Rightarrow> int \<Rightarrow> heap \<Rightarrow> (exn + addr) \<times> heap" where
  "heap_df_buf b now mins hp =
     (case lookup hp b of
        Some (Deque refs) \<Rightarrow>
          (case alloc (PyList refs) hp of
             (snapshot, hp1) \<Rightarrow>
               if refs = [] then
                 alloc_frame (Inr (DataFrame_columns [''ts'', ''temperature'', ''humidity''])) hp1
               else
                 (case those (map (read_dict hp1) refs) of
                    None \<Rightarrow> (Inl (OtherError ''rows''), hp1)
                  | Some ss \<Rightarrow>
                      (case alloc (Frame (DataFrame ss)) hp1 of
                         (df, hp2) \<Rightarrow>
                           (case column (DataFrame ss) ''ts'' of
                              Inl e \<Rightarrow> (Inl e, hp2)
                            | Inr _ \<Rightarrow>
                                (case (if 0 < mins
                                       then alloc_frame (ts_after (DataFrame ss) (now - minutes mins)) hp2
                                       else (Inr df, hp2)) of
                                   (Inl e, hp3) \<Rightarrow> (Inl e, hp3)
                                 | (Inr df', hp3) \<Rightarrow>
                                     (case lookup hp3 df' of
                                        Some (Frame f) \<Rightarrow> alloc_frame (sort_values_ts f) hp3
                                      | _ \<Rightarrow> (Inl (OtherError ''frame''), hp3)))))))
      | _ \<Rightarrow> (Inl (OtherError ''buffer''), hp))"

text \<open>The store at \<open>b\<close> holds the samples \<open>buffer\<close>, in this order.\<close>

definition holds :: "heap \<Rightarrow> addr \<Rightarrow> sample list \<Rightarrow> bool" where
  "holds hp b buffer =
     (case lookup hp b of
        Some (Deque refs) \<Rightarrow> list_all2 (\<lambda>a s. read_dict hp a = Some s) refs buffer
      | _ \<Rightarrow> False)"


section \<open>Properties of the sample store\<close>

lemma deque_append_drop:
  assumes "length d \<le> n"
  shows "deque_append n d x = drop (Suc (length d) - n) (d @ [x])"
proof (cases "length d = n")
  case True
  then have "Suc (length d) - n = Suc 0" by simp
  moreover have "drop (Suc 0) (d @ [x]) = tl (d @ [x])"
    by (simp only: drop_Suc drop_0)
  ultimately show ?thesis
    using True by (simp only: deque_append_def Let_def) simp
next
  case False
  with assms have "length d < n" by simp
  then show ?thesis
    by (simp add: deque_append_def)
qed

lemma deque_append_length:
  "length d \<le> n \<Longrightarrow> 0 < n \<Longrightarrow> length (deque_append n d x) \<le> n"
  by (auto simp: deque_append_def Let_def)

lemma safe_append_length:
  "length b \<le> MAX_POINTS \<Longrightarrow> length (safe_append now t h b) \<le> MAX_POINTS"
  unfolding safe_append_def by (rule deque_append_length) (simp_all add: MAX_POINTS_def)

lemma appends_drop:
  "length b \<le> MAX_POINTS \<Longrightarrow>
   appends rs b = drop (length b + length rs - MAX_POINTS) (b @ map row rs)"
proof (induction rs arbitrary: b)
  case Nil
  then show ?case by simp
next
  case (Cons r rs)
  obtain now t h where r: "r = (now, t, h)" by (cases r) auto
  let ?k = "Suc (length b) - MAX_POINTS"
  let ?b' = "safe_append now t h b"
  have b': "?b' = drop ?k (b @ [row r])"
    using Cons.prems by (simp add: safe_append_def deque_append_drop r row_def)
  have len: "length ?b' \<le> MAX_POINTS"
    using Cons.prems by (rule safe_append_length)
  have k: "?k \<le> length (b @ [row r])" by simp
  have "appends (r # rs) b = appends rs ?b'" by (simp add: r)
  also have "\<dots> = drop (length ?b' + length rs - MAX_POINTS) (?b' @ map row rs)"
    using len by (rule Cons.IH)
  also have "?b' @ map row rs = drop ?k (b @ map row (r # rs))"
  proof -
    have "drop ?k (b @ map row (r # rs)) = drop ?k ((b @ [row r]) @ map row rs)" by simp
    also have "\<dots> = drop ?k (b @ [row r]) @ map row rs"
      using k by (simp only: drop_append) simp
    finally show ?thesis by (simp only: b')
  qed
  also have "drop (length ?b' + length rs - MAX_POINTS) (drop ?k (b @ map row (r # rs)))
      = drop (length b + length (r # rs) - MAX_POINTS) (b @ map row (r # rs))"
  proof -
    have lb: "length ?b' = Suc (length b) - ?k"
      by (simp only: b' length_drop length_append) simp
    have "length ?b' + length rs - MAX_POINTS + ?k = length b + length (r # rs) - MAX_POINTS"
      using Cons.prems unfolding lb by simp
    then show ?thesis by (simp only: drop_drop)
  qed
  finally show ?case .
qed

text \<open>
  C1. Starting from the empty deque, after any sequence of appends the store holds at
  most \<open>MAX_POINTS\<close> samples, namely the most recent ones in arrival order; and one more
  append to a full store drops exactly its head, the oldest sample held.
\<close>

theorem store_bounded_fifo:
  "length (appends rs []) \<le> MAX_POINTS
   \<and> appends rs [] = drop (length rs - MAX_POINTS) (map row rs)
   \<and> safe_append now t h (appends rs []) =
       (if length (appends rs []) = MAX_POINTS then tl (appends rs []) else appends rs [])
         @ [\<lparr>ts = now, temperature = t, humidity = h\<rparr>]"
proof -
  have d: "appends rs [] = drop (length rs - MAX_POINTS) (map row rs)"
    using appends_drop [of "[]" rs] by simp
  have l: "length (appends rs []) \<le> MAX_POINTS"
    by (simp add: d)
  have "0 < MAX_POINTS" by (simp add: MAX_POINTS_def)
  with l have "safe_append now t h (appends rs []) =
       (if length (appends rs []) = MAX_POINTS then tl (appends rs []) else appends rs [])
         @ [\<lparr>ts = now, temperature = t, humidity = h\<rparr>]"
    by (cases "appends rs []") (auto simp: safe_append_def deque_append_def)
  with d l show ?thesis by blast
qed

section \<open>Properties of the window query\<close>

lemma df_buf_nonempty:
  "buffer \<noteq> [] \<Longrightarrow>
   df_buf now buffer mins =
     Inr \<lparr>columns = [''ts'', ''temperature'', ''humidity''],
          rows = sort_key ts (if 0 < mins then filter (\<lambda>r. now - minutes mins < ts r) buffer
                              else buffer)\<rparr>"
  by (simp add: df_buf_def DataFrame_def column_def ts_after_def sort_values_ts_def)

lemma df_buf_rows:
  "\<exists>df. df_buf now buffer mins = Inr df
     \<and> columns df = [''ts'', ''temperature'', ''humidity'']
     \<and> rows df = sort_key ts (if 0 < mins then filter (\<lambda>r. now - minutes mins < ts r) buffer
                              else buffer)"
proof (cases "buffer = []")
  case True
  then show ?thesis by (simp add: df_buf_def DataFrame_columns_def)
next
  case False
  then show ?thesis by (simp add: df_buf_nonempty)
qed

text \<open>
  C3. For a window of \<open>mins > 0\<close> minutes the query returns a frame whose rows are
  exactly the buffered samples with \<open>ts > now - mins\<close> minutes (as a multiset), in
  ascending order of \<open>ts\<close>; no returned row has \<open>ts\<close> equal to the boundary instant.
\<close>

theorem df_buf_window:
  assumes "0 < mins"
  shows "\<exists>df. df_buf now buffer mins = Inr df
     \<and> mset (rows df) = filter_mset (\<lambda>r. now - minutes mins < ts r) (mset buffer)
     \<and> sorted (map ts (rows df))
     \<and> \<not> (\<exists>r \<in> set (rows df). ts r = now - minutes mins)"
proof -
  obtain df where df: "df_buf now buffer mins = Inr df"
    and r: "rows df = sort_key ts (filter (\<lambda>r. now - minutes mins < ts r) buffer)"
    using df_buf_rows [of now buffer mins] assms by auto
  have "mset (rows df) = filter_mset (\<lambda>r. now - minutes mins < ts r) (mset buffer)"
    by (simp add: r)
  moreover have "sorted (map ts (rows df))"
    by (simp add: r)
  moreover have "\<not> (\<exists>r \<in> set (rows df). ts r = now - minutes mins)"
    by (auto simp: r)
  ultimately show ?thesis using df by blast
qed

theorem df_buf_window_witness:
  "(0::int) < 5 \<and>
   (\<exists>df. df_buf 600000000
       [\<lparr>ts = 300000000, temperature = Fin 21, humidity = Fin 40\<rparr>,
        \<lparr>ts = 300000002, temperature = Fin 22, humidity = Fin 41\<rparr>,
        \<lparr>ts = 300000001, temperature = Fin 23, humidity = Fin 42\<rparr>,
        \<lparr>ts = 299999999, temperature = Fin 24, humidity = Fin 43\<rparr>] 5 = Inr df
     \<and> rows df =
       [\<lparr>ts = 300000001, temperature = Fin 23, humidity = Fin 42\<rparr>,
        \<lparr>ts = 300000002, temperature = Fin 22, humidity = Fin 41\<rparr>])"
proof -
  have h: "(0::int) < 5" by simp
  from df_buf_window [OF h, of 600000000
       "[\<lparr>ts = 300000000, temperature = Fin 21, humidity = Fin 40\<rparr>,
        \<lparr>ts = 300000002, temperature = Fin 22, humidity = Fin 41\<rparr>,
        \<lparr>ts = 300000001, temperature = Fin 23, humidity = Fin 42\<rparr>,
        \<lparr>ts = 299999999, temperature = Fin 24, humidity = Fin 43\<rparr>]"]
  show ?thesis
    by (simp add: df_buf_nonempty minutes_def)
qed

text \<open>
  C4. With window 0 the query returns a frame holding every buffered sample, in ascending
  order of \<open>ts\<close>. For every window, an empty store, and a store none of whose samples is
  later than the boundary, give the frame with the three column labels and no rows; no
  exception is raised.
\<close>

theorem df_buf_all_and_empty:
  "(\<exists>df. df_buf now buffer 0 = Inr df \<and> mset (rows df) = mset buffer
       \<and> sorted (map ts (rows df)))
   \<and> df_buf now [] mins = Inr \<lparr>columns = [''ts'', ''temperature'', ''humidity''], rows = []\<rparr>
   \<and> (0 < mins \<and> (\<forall>r \<in> set buffer. ts r \<le> now - minutes mins) \<longrightarrow>
        df_buf now buffer mins = Inr \<lparr>columns = [''ts'', ''temperature'', ''humidity''], rows = []\<rparr>)"
proof (intro conjI impI)
  obtain df where "df_buf now buffer 0 = Inr df" and "rows df = sort_key ts buffer"
    using df_buf_rows [of now buffer 0] by auto
  then show "\<exists>df. df_buf now buffer 0 = Inr df \<and> mset (rows df) = mset buffer
       \<and> sorted (map ts (rows df))"
    by simp
next
  show "df_buf now [] mins = Inr \<lparr>columns = [''ts'', ''temperature'', ''humidity''], rows = []\<rparr>"
    by (simp add: df_buf_def DataFrame_columns_def)
next
  assume a: "0 < mins \<and> (\<forall>r \<in> set buffer. ts r \<le> now - minutes mins)"
  then have "filter (\<lambda>r. now - minutes mins < ts r) buffer = []"
    by (auto simp: filter_empty_conv)
  with a show "df_buf now buffer mins
      = Inr \<lparr>columns = [''ts'', ''temperature'', ''humidity''], rows = []\<rparr>"
    by (cases "buffer = []") (simp_all add: df_buf_nonempty, simp add: df_buf_def DataFrame_columns_def)
qed

theorem df_buf_all_and_empty_witness:
  "df_buf 600000000 [\<lparr>ts = 300000000, temperature = Fin 21, humidity = Fin 40\<rparr>] 5
     = Inr \<lparr>columns = [''ts'', ''temperature'', ''humidity''], rows = []\<rparr>"
proof -
  have h: "(0::int) < 5 \<and> (\<forall>r \<in> set [\<lparr>ts = 300000000, temperature = Fin 21, humidity = Fin 40\<rparr>].
      ts r \<le> 600000000 - minutes 5)"
    by (simp add: minutes_def)
  from df_buf_all_and_empty [of 600000000
      "[\<lparr>ts = 300000000, temperature = Fin 21, humidity = Fin 40\<rparr>]" 5] h
  show ?thesis by blast
qed

section \<open>Properties of the helpers\<close>

text \<open>
  C5. \<open>safe_range\<close> returns the unit range when \<open>lo\<close> or \<open>hi\<close> is missing, the range
  \<open>(lo - expand, lo + expand)\<close> when \<open>hi <= lo\<close>, and \<open>(lo, hi)\<close> otherwise; with the
  three results the specification lists.
\<close>

theorem safe_range_cases:
  "(isna lo \<or> isna hi \<longrightarrow> safe_range lo hi expand = (Fin 0, Fin 1))
   \<and> (fle hi lo \<longrightarrow> safe_range lo hi expand = (fsub lo expand, fadd lo expand))
   \<and> (\<not> isna lo \<and> \<not> isna hi \<and> \<not> fle hi lo \<longrightarrow> safe_range lo hi expand = (lo, hi))
   \<and> safe_range (Fin 5) (Fin 5) (Fin 0.1) = (Fin 4.9, Fin 5.1)
   \<and> safe_range NaN (Fin 5) (Fin 0.1) = (Fin 0, Fin 1)
   \<and> safe_range (Fin 2) (Fin 8) (Fin 0.1) = (Fin 2, Fin 8)"
proof -
  have "fle hi lo \<Longrightarrow> \<not> isna lo \<and> \<not> isna hi"
    by (cases hi; cases lo) (simp_all add: isna_def)
  then show ?thesis
    by (auto simp: safe_range_def isna_def fsub_def)
qed

theorem safe_range_cases_witness:
  "isna NaN \<and> safe_range NaN (Fin 5) (Fin 0.1) = (Fin 0, Fin 1)
   \<and> fle (Fin 5) (Fin 5)
   \<and> safe_range (Fin 5) (Fin 5) (Fin 0.1) = (fsub (Fin 5) (Fin 0.1), fadd (Fin 5) (Fin 0.1))
   \<and> \<not> isna (Fin 2) \<and> \<not> isna (Fin 8) \<and> \<not> fle (Fin 8) (Fin 2)
   \<and> safe_range (Fin 2) (Fin 8) (Fin 0.1) = (Fin 2, Fin 8)"
proof -
  have a: "isna NaN" and b: "fle (Fin 5) (Fin 5)"
    and c: "\<not> isna (Fin 2) \<and> \<not> isna (Fin 8) \<and> \<not> fle (Fin 8) (Fin 2)"
    by (simp_all add: isna_def)
  from safe_range_cases [of NaN "Fin 5" "Fin 0.1"] a
  have 1: "safe_range NaN (Fin 5) (Fin 0.1) = (Fin 0, Fin 1)" by blast
  from safe_range_cases [of "Fin 5" "Fin 5" "Fin 0.1"] b
  have 2: "safe_range (Fin 5) (Fin 5) (Fin 0.1) = (fsub (Fin 5) (Fin 0.1), fadd (Fin 5) (Fin 0.1))"
    by blast
  from safe_range_cases [of "Fin 2" "Fin 8" "Fin 0.1"] c
  have 3: "safe_range (Fin 2) (Fin 8) (Fin 0.1) = (Fin 2, Fin 8)" by blast
  from a b c 1 2 3 show ?thesis by blast
qed

section \<open>Properties of ingestion\<close>

lemma in_range_spec_bounds: "in_range t h = spec_bounds t h"
  by (cases t; cases h) (simp_all add: in_range_def spec_bounds_def)

lemma split_on_nonempty: "split_on sep s \<noteq> []"
  by (induction s) (auto split: list.splits)

lemma unpack2_fields:
  "unpack2 (py_call pfloat) (take 2 (split_on CHR '','' payload)) =
     (case spec_fields pfloat payload of None \<Rightarrow> Inl ValueError | Some th \<Rightarrow> Inr th)"
proof -
  obtain f1 fs where s: "split_on CHR '','' payload = f1 # fs"
    using split_on_nonempty [of "CHR '',''" payload] by (cases "split_on CHR '','' payload") auto
  show ?thesis
  proof (cases fs)
    case Nil
    with s show ?thesis
      by (simp add: spec_fields_def unpack2_def py_call_def split: option.splits)
  next
    case (Cons f2 rest)
    with s show ?thesis
      by (simp add: spec_fields_def unpack2_def py_call_def split: option.splits)
  qed
qed

lemma on_message_try_fields:
  "on_message_try pfloat now payload buffer =
     (if utf8_valid payload then
        (case spec_fields pfloat payload of
           None \<Rightarrow> Inl ValueError
         | Some (t, h) \<Rightarrow> Inr (checked_append now t h buffer))
      else Inl UnicodeDecodeError)"
  by (simp add: on_message_try_def decode_def unpack2_fields split: option.splits)

lemma on_message_parsed:
  "utf8_valid payload \<Longrightarrow> spec_fields pfloat payload = Some (t, h) \<Longrightarrow>
   on_message pfloat printing now payload buffer = Inr (checked_append now t h buffer)"
  by (simp add: on_message_def on_message_try_fields)

lemma produce_message:
  "produce pfloat printing (Message payload now) buffer =
     (if utf8_valid payload then
        (case spec_fields pfloat payload of
           None \<Rightarrow> buffer
         | Some (t, h) \<Rightarrow> checked_append now t h buffer)
      else buffer)"
  by (simp add: on_message_def on_message_try_fields split: option.splits)

lemma on_message_printed:
  "printing ValueError = None \<Longrightarrow> printing UnicodeDecodeError = None \<Longrightarrow>
   \<exists>b. on_message pfloat printing now payload buffer = Inr b"
  by (simp add: on_message_def on_message_try_fields split: option.splits)

lemma last_safe_append:
  "last (safe_append now t h buffer) = \<lparr>ts = now, temperature = t, humidity = h\<rparr>"
  by (cases buffer) (simp_all add: safe_append_def deque_append_def MAX_POINTS_def Let_def)

lemma py_float_25: "py_float ''25.0'' = Some (Fin 25)"
  by (simp add: py_float_def parse_sign_def strip_def parse_number_def is_space_def is_digit_def
      byte_def to_lower_def digits_value_def)

lemma py_float_55: "py_float ''55.0'' = Some (Fin 55)"
  by (simp add: py_float_def parse_sign_def strip_def parse_number_def is_space_def is_digit_def
      byte_def to_lower_def digits_value_def)

lemma py_float_100: "py_float ''100.0'' = Some (Fin 100)"
  by (simp add: py_float_def parse_sign_def strip_def parse_number_def is_space_def is_digit_def
      byte_def to_lower_def digits_value_def)

lemma py_float_abc: "py_float ''abc'' = None"
  by (simp add: py_float_def parse_sign_def strip_def parse_number_def is_space_def is_digit_def
      byte_def to_lower_def digits_value_def)

lemma spec_fields_25_55: "spec_fields py_float ''25.0,55.0'' = Some (Fin 25, Fin 55)"
  by (simp add: spec_fields_def py_float_25 py_float_55)

lemma spec_fields_100_55: "spec_fields py_float ''100.0,55.0'' = Some (Fin 100, Fin 55)"
  by (simp add: spec_fields_def py_float_100 py_float_55)

lemma spec_fields_abc_55: "spec_fields py_float ''abc,55.0'' = None"
  by (simp add: spec_fields_def py_float_abc)

lemma spec_fields_25_55_ff:
  "spec_fields py_float (''25.0,55.0,'' @ [CHR 0xFF]) = Some (Fin 25, Fin 55)"
  by (simp add: spec_fields_def py_float_25 py_float_55)

lemma utf8_valid_25_55: "utf8_valid ''25.0,55.0''"
  by (simp add: byte_def)

lemma utf8_valid_100_55: "utf8_valid ''100.0,55.0''"
  by (simp add: byte_def)

lemma utf8_valid_abc_55: "utf8_valid ''abc,55.0''"
  by (simp add: byte_def)

lemma not_utf8_valid_25_55_ff: "\<not> utf8_valid (''25.0,55.0,'' @ [CHR 0xFF])"
  by (simp add: byte_def)

text \<open>
  C2, as the claim states it, fails: in the message \<open>25.0,55.0,\<close> followed by the byte
  0xFF the first two comma-separated fields parse as 25.0 and 55.0, within the bounds, yet
  \<open>on_message\<close> decodes the whole payload first, the decoding raises, and nothing is
  appended.
\<close>

theorem on_message_fields_counterexample:
  "spec_fields py_float (''25.0,55.0,'' @ [CHR 0xFF]) = Some (Fin 25, Fin 55)
   \<and> spec_bounds (Fin 25) (Fin 55)
   \<and> on_message_try py_float 7 (''25.0,55.0,'' @ [CHR 0xFF]) [] = Inl UnicodeDecodeError
   \<and> on_message py_float prints 7 (''25.0,55.0,'' @ [CHR 0xFF]) [] = Inr []
   \<and> safe_append 7 (Fin 25) (Fin 55) [] = [\<lparr>ts = 7, temperature = Fin 25, humidity = Fin 55\<rparr>]
   \<and> on_message py_float prints 7 (''25.0,55.0,'' @ [CHR 0xFF]) []
       \<noteq> Inr (safe_append 7 (Fin 25) (Fin 55) [])"
proof -
  have t: "on_message_try py_float 7 (''25.0,55.0,'' @ [CHR 0xFF]) [] = Inl UnicodeDecodeError"
    using not_utf8_valid_25_55_ff by (simp only: on_message_try_fields if_False)
  then have m: "on_message py_float prints 7 (''25.0,55.0,'' @ [CHR 0xFF]) [] = Inr []"
    by (simp add: on_message_def prints_def)
  have s: "safe_append 7 (Fin 25) (Fin 55) [] =
      [\<lparr>ts = 7, temperature = Fin 25, humidity = Fin 55\<rparr>]"
    by (simp add: safe_append_def deque_append_def MAX_POINTS_def)
  have b: "spec_bounds (Fin 25) (Fin 55)"
    by (simp add: spec_bounds_def)
  from spec_fields_25_55_ff b t m s show ?thesis by simp
qed

text \<open>
  C2, amended. \<open>on_message\<close> appends a sample with the parsed temperature and humidity
  exactly when the whole payload decodes as UTF-8 and its first two comma-separated fields
  parse as floats within the bounds; otherwise the store is left as it was. A message
  rejected by the bounds raises nothing, and no exception leaves \<open>on_message\<close> when the
  handler's print succeeds. The message \<open>25.0,55.0\<close> is appended as (25.0, 55.0);
  \<open>100.0,55.0\<close> is rejected without raising, and so is \<open>abc,55.0\<close> when the print succeeds.
\<close>

theorem on_message_accepts_iff:
  "(utf8_valid payload \<and> spec_fields pfloat payload = Some (t, h) \<and> spec_bounds t h \<longrightarrow>
        on_message pfloat printing now payload buffer = Inr (safe_append now t h buffer)
        \<and> last (safe_append now t h buffer) = \<lparr>ts = now, temperature = t, humidity = h\<rparr>)
   \<and> (\<not> (utf8_valid payload
           \<and> (\<exists>t h. spec_fields pfloat payload = Some (t, h) \<and> spec_bounds t h)) \<longrightarrow>
        produce pfloat printing (Message payload now) buffer = buffer)
   \<and> (utf8_valid payload \<and> spec_fields pfloat payload = Some (t, h) \<and> \<not> spec_bounds t h \<longrightarrow>
        on_message pfloat printing now payload buffer = Inr buffer)
   \<and> (printing ValueError = None \<and> printing UnicodeDecodeError = None \<longrightarrow>
        (\<exists>b. on_message pfloat printing now payload buffer = Inr b))
   \<and> on_message py_float printing now ''25.0,55.0'' buffer =
        Inr (safe_append now (Fin 25) (Fin 55) buffer)
   \<and> on_message py_float printing now ''100.0,55.0'' buffer = Inr buffer
   \<and> on_message py_float prints now ''abc,55.0'' buffer = Inr buffer"
proof (intro conjI impI)
  assume "utf8_valid payload \<and> spec_fields pfloat payload = Some (t, h) \<and> spec_bounds t h"
  then show "on_message pfloat printing now payload buffer = Inr (safe_append now t h buffer)"
    by (simp add: on_message_parsed checked_append_def in_range_spec_bounds)
next
  show "last (safe_append now t h buffer) = \<lparr>ts = now, temperature = t, humidity = h\<rparr>"
    by (rule last_safe_append)
next
  assume "\<not> (utf8_valid payload
           \<and> (\<exists>t h. spec_fields pfloat payload = Some (t, h) \<and> spec_bounds t h))"
  then show "produce pfloat printing (Message payload now) buffer = buffer"
    unfolding produce_message
    by (auto simp: checked_append_def in_range_spec_bounds split: option.splits)
next
  assume "utf8_valid payload \<and> spec_fields pfloat payload = Some (t, h) \<and> \<not> spec_bounds t h"
  then show "on_message pfloat printing now payload buffer = Inr buffer"
    by (simp add: on_message_parsed checked_append_def in_range_spec_bounds)
next
  assume "printing ValueError = None \<and> printing UnicodeDecodeError = None"
  then show "\<exists>b. on_message pfloat printing now payload buffer = Inr b"
    by (simp add: on_message_printed)
next
  show "on_message py_float printing now ''25.0,55.0'' buffer
      = Inr (safe_append now (Fin 25) (Fin 55) buffer)"
    using utf8_valid_25_55 spec_fields_25_55
    by (simp add: on_message_parsed checked_append_def in_range_def)
next
  show "on_message py_float printing now ''100.0,55.0'' buffer = Inr buffer"
    using utf8_valid_100_55 spec_fields_100_55
    by (simp add: on_message_parsed checked_append_def in_range_def)
next
  show "on_message py_float prints now ''abc,55.0'' buffer = Inr buffer"
    using utf8_valid_abc_55 spec_fields_abc_55
    by (simp add: on_message_def on_message_try_fields prints_def)
qed

theorem on_message_accepts_iff_witness:
  "utf8_valid ''25.0,55.0''
   \<and> spec_fields py_float ''25.0,55.0'' = Some (Fin 25, Fin 55) \<and> spec_bounds (Fin 25) (Fin 55)
   \<and> on_message py_float prints 7 ''25.0,55.0'' []
       = Inr [\<lparr>ts = 7, temperature = Fin 25, humidity = Fin 55\<rparr>]
   \<and> \<not> (utf8_valid (''25.0,55.0,'' @ [CHR 0xFF])
         \<and> (\<exists>t h. spec_fields py_float (''25.0,55.0,'' @ [CHR 0xFF]) = Some (t, h)
               \<and> spec_bounds t h))
   \<and> produce py_float prints (Message (''25.0,55.0,'' @ [CHR 0xFF]) 7) [] = []
   \<and> utf8_valid ''100.0,55.0''
   \<and> spec_fields py_float ''100.0,55.0'' = Some (Fin 100, Fin 55)
   \<and> \<not> spec_bounds (Fin 100) (Fin 55)
   \<and> on_message py_float prints 7 ''100.0,55.0'' [] = Inr []
   \<and> prints ValueError = None \<and> prints UnicodeDecodeError = None
   \<and> (\<exists>b. on_message py_float prints 7 ''abc,55.0'' [] = Inr b)"
proof -
  have a: "utf8_valid ''25.0,55.0'' \<and> spec_fields py_float ''25.0,55.0'' = Some (Fin 25, Fin 55)
      \<and> spec_bounds (Fin 25) (Fin 55)"
    by (intro conjI utf8_valid_25_55 spec_fields_25_55) (simp add: spec_bounds_def)
  have b: "\<not> (utf8_valid (''25.0,55.0,'' @ [CHR 0xFF])
         \<and> (\<exists>t h. spec_fields py_float (''25.0,55.0,'' @ [CHR 0xFF]) = Some (t, h)
               \<and> spec_bounds t h))"
    using not_utf8_valid_25_55_ff by blast
  have c: "utf8_valid ''100.0,55.0'' \<and> spec_fields py_float ''100.0,55.0'' = Some (Fin 100, Fin 55)
      \<and> \<not> spec_bounds (Fin 100) (Fin 55)"
    by (intro conjI utf8_valid_100_55 spec_fields_100_55) (simp add: spec_bounds_def)
  have d: "prints ValueError = None \<and> prints UnicodeDecodeError = None"
    by (simp add: prints_def)
  from on_message_accepts_iff [where pfloat = py_float and printing = prints and now = 7
      and payload = "''25.0,55.0''" and buffer = "[]" and t = "Fin 25" and h = "Fin 55"] a
  have 1: "on_message py_float prints 7 ''25.0,55.0'' [] = Inr (safe_append 7 (Fin 25) (Fin 55) [])"
    by blast
  from on_message_accepts_iff [where pfloat = py_float and printing = prints and now = 7
      and payload = "''25.0,55.0,'' @ [CHR 0xFF]" and buffer = "[]"] b
  have 2: "produce py_float prints (Message (''25.0,55.0,'' @ [CHR 0xFF]) 7) [] = []"
    by blast
  from on_message_accepts_iff [where pfloat = py_float and printing = prints and now = 7
      and payload = "''100.0,55.0''" and buffer = "[]" and t = "Fin 100" and h = "Fin 55"] c
  have 3: "on_message py_float prints 7 ''100.0,55.0'' [] = Inr []"
    by blast
  from on_message_accepts_iff [where pfloat = py_float and printing = prints and now = 7
      and payload = "''abc,55.0''" and buffer = "[]"] d
  have 4: "\<exists>b. on_message py_float prints 7 ''abc,55.0'' [] = Inr b"
    by blast
  have 5: "safe_append 7 (Fin 25) (Fin 55) [] = [\<lparr>ts = 7, temperature = Fin 25, humidity = Fin 55\<rparr>]"
    by (simp add: safe_append_def deque_append_def MAX_POINTS_def)
  from 1 have 6: "on_message py_float prints 7 ''25.0,55.0'' [] =
      Inr [\<lparr>ts = 7, temperature = Fin 25, humidity = Fin 55\<rparr>]"
    by (simp only: 5)
  from a b c d 2 3 4 6 show ?thesis by blast
qed

section \<open>Properties of the simulation and of the producers\<close>

lemma uniform_half: "unit_draw r \<Longrightarrow> - 0.5 \<le> uniform (- 0.5) 0.5 r \<and> uniform (- 0.5) 0.5 r \<le> 0.5"
  by (simp add: uniform_def unit_draw_def)

lemma simulated_in_range:
  assumes "unit_draw r1" and "unit_draw r2"
  shows "in_range (Fin (29 + uniform (- 0.5) 0.5 r1)) (Fin (80 + uniform (- 0.5) 0.5 r2))"
  using uniform_half [OF assms(1)] uniform_half [OF assms(2)] by (simp add: in_range_def)

text \<open>
  C7. A simulated reading is (29, 80) plus noise within [-0.5, 0.5] on each metric, and the
  pass appends exactly what the validator appends for that reading: the guarded append of
  \<open>on_message\<close> has the same result, and so has \<open>on_message\<close> itself on every message
  that decodes and whose first two fields parse as that reading.
\<close>

theorem simulate_step_as_validated:
  assumes "unit_draw r1" and "unit_draw r2"
  shows "- 0.5 \<le> uniform (- 0.5) 0.5 r1 \<and> uniform (- 0.5) 0.5 r1 \<le> 0.5
     \<and> - 0.5 \<le> uniform (- 0.5) 0.5 r2 \<and> uniform (- 0.5) 0.5 r2 \<le> 0.5
     \<and> last (simulate_step r1 r2 now buffer) =
         \<lparr>ts = now, temperature = Fin (29 + uniform (- 0.5) 0.5 r1),
          humidity = Fin (80 + uniform (- 0.5) 0.5 r2)\<rparr>
     \<and> simulate_step r1 r2 now buffer =
         checked_append now (Fin (29 + uniform (- 0.5) 0.5 r1))
           (Fin (80 + uniform (- 0.5) 0.5 r2)) buffer
     \<and> (utf8_valid payload \<and> spec_fields pfloat payload =
           Some (Fin (29 + uniform (- 0.5) 0.5 r1), Fin (80 + uniform (- 0.5) 0.5 r2)) \<longrightarrow>
         on_message pfloat printing now payload buffer = Inr (simulate_step r1 r2 now buffer))"
proof -
  have r: "in_range (Fin (29 + uniform (- 0.5) 0.5 r1)) (Fin (80 + uniform (- 0.5) 0.5 r2))"
    using assms by (rule simulated_in_range)
  have c: "simulate_step r1 r2 now buffer =
         checked_append now (Fin (29 + uniform (- 0.5) 0.5 r1))
           (Fin (80 + uniform (- 0.5) 0.5 r2)) buffer"
    using r by (simp add: simulate_step_def checked_append_def)
  have l: "last (simulate_step r1 r2 now buffer) =
         \<lparr>ts = now, temperature = Fin (29 + uniform (- 0.5) 0.5 r1),
          humidity = Fin (80 + uniform (- 0.5) 0.5 r2)\<rparr>"
    unfolding simulate_step_def by (rule last_safe_append)
  have m: "utf8_valid payload \<and> spec_fields pfloat payload =
           Some (Fin (29 + uniform (- 0.5) 0.5 r1), Fin (80 + uniform (- 0.5) 0.5 r2)) \<longrightarrow>
         on_message pfloat printing now payload buffer = Inr (simulate_step r1 r2 now buffer)"
    by (simp add: on_message_parsed c)
  from uniform_half [OF assms(1)] uniform_half [OF assms(2)] l c m show ?thesis
    by blast
qed

lemma py_float_28_75: "py_float ''28.75'' = Some (Fin 28.75)"
  by (simp add: py_float_def parse_sign_def strip_def parse_number_def is_space_def is_digit_def
      byte_def to_lower_def digits_value_def)

lemma py_float_80_25: "py_float ''80.25'' = Some (Fin 80.25)"
  by (simp add: py_float_def parse_sign_def strip_def parse_number_def is_space_def is_digit_def
      byte_def to_lower_def digits_value_def)

theorem simulate_step_as_validated_witness:
  "unit_draw 0.25 \<and> unit_draw 0.75
   \<and> utf8_valid ''28.75,80.25''
   \<and> spec_fields py_float ''28.75,80.25'' =
       Some (Fin (29 + uniform (- 0.5) 0.5 0.25), Fin (80 + uniform (- 0.5) 0.5 0.75))
   \<and> simulate_step 0.25 0.75 7 [] = [\<lparr>ts = 7, temperature = Fin 28.75, humidity = Fin 80.25\<rparr>]
   \<and> on_message py_float prints 7 ''28.75,80.25'' [] = Inr (simulate_step 0.25 0.75 7 [])"
proof -
  have a: "unit_draw 0.25" and b: "unit_draw 0.75"
    by (simp_all add: unit_draw_def)
  have u: "utf8_valid ''28.75,80.25''"
    by (simp add: byte_def)
  have f: "spec_fields py_float ''28.75,80.25'' =
       Some (Fin (29 + uniform (- 0.5) 0.5 0.25), Fin (80 + uniform (- 0.5) 0.5 0.75))"
    by (simp add: spec_fields_def py_float_28_75 py_float_80_25 uniform_def)
  have s: "simulate_step 0.25 0.75 7 [] = [\<lparr>ts = 7, temperature = Fin 28.75, humidity = Fin 80.25\<rparr>]"
    by (simp add: simulate_step_def safe_append_def deque_append_def MAX_POINTS_def uniform_def)
  from simulate_step_as_validated [OF a b, where now = 7 and buffer = "[]" and pfloat = py_float
      and payload = "''28.75,80.25''" and printing = prints] u f
  have "on_message py_float prints 7 ''28.75,80.25'' [] = Inr (simulate_step 0.25 0.75 7 [])"
    by blast
  with a b u f s show ?thesis by blast
qed

lemma in_set_deque_append:
  "s \<in> set (deque_append n d x) \<Longrightarrow> s \<in> set d \<or> s = x"
  by (cases d) (auto simp: deque_append_def Let_def split: if_splits dest: list.set_sel(2))

lemma safe_append_within:
  assumes "list_all within_bounds buffer" and "spec_bounds t h"
  shows "list_all within_bounds (safe_append now t h buffer)"
proof -
  have "within_bounds s" if "s \<in> set (safe_append now t h buffer)" for s
  proof -
    from that have "s \<in> set buffer \<or> s = \<lparr>ts = now, temperature = t, humidity = h\<rparr>"
      unfolding safe_append_def by (rule in_set_deque_append)
    then show ?thesis
      using assms by (auto simp: list_all_iff within_bounds_def)
  qed
  then show ?thesis by (simp add: list_all_iff)
qed

lemma checked_append_within:
  assumes "list_all within_bounds buffer"
  shows "list_all within_bounds (checked_append now t h buffer)"
proof (cases "in_range t h")
  case True
  then have "spec_bounds t h" by (simp add: in_range_spec_bounds)
  with assms have "list_all within_bounds (safe_append now t h buffer)"
    by (rule safe_append_within)
  with True show ?thesis by (simp add: checked_append_def)
next
  case False
  with assms show ?thesis by (simp add: checked_append_def)
qed

lemma produce_within:
  assumes "event_ok e" and "list_all within_bounds buffer"
  shows "list_all within_bounds (produce pfloat printing e buffer)"
proof (cases e)
  case (Message payload now)
  show ?thesis
    unfolding Message produce_message
    using assms(2) by (auto simp: checked_append_within split: option.splits)
next
  case (Tick r1 r2 now)
  with assms(1) have "unit_draw r1" and "unit_draw r2" by simp_all
  then have "in_range (Fin (29 + uniform (- 0.5) 0.5 r1)) (Fin (80 + uniform (- 0.5) 0.5 r2))"
    by (rule simulated_in_range)
  then have "spec_bounds (Fin (29 + uniform (- 0.5) 0.5 r1)) (Fin (80 + uniform (- 0.5) 0.5 r2))"
    by (simp add: in_range_spec_bounds)
  with assms(2) show ?thesis
    unfolding Tick produce.simps simulate_step_def by (rule safe_append_within)
qed

lemma simulate_run:
  "simulate ticks buffer =
     run pfloat printing (map (\<lambda>(r1, r2, now). Tick r1 r2 now) ticks) buffer"
  by (induction ticks arbitrary: buffer) auto

lemma run_within:
  "list_all event_ok es \<Longrightarrow> list_all within_bounds buffer \<Longrightarrow>
   list_all within_bounds (run pfloat printing es buffer)"
  by (induction es arbitrary: buffer) (simp_all add: produce_within)

text \<open>
  C10. Whatever messages and simulation passes reach the store, in whatever order, every
  sample it holds has \<open>-10 < temperature < 60\<close> and \<open>0 \<le> humidity \<le> 100\<close>. The
  statement is about any event sequence, hence about every store on the way.
\<close>

theorem store_within_bounds:
  assumes "list_all event_ok es"
  shows "list_all within_bounds (run pfloat printing es [])"
  using assms by (rule run_within) simp

theorem store_within_bounds_witness:
  "list_all event_ok [Message ''25.0,55.0'' 1, Tick 0.25 0.75 2, Message ''100.0,55.0'' 3]
   \<and> run py_float prints [Message ''25.0,55.0'' 1, Tick 0.25 0.75 2, Message ''100.0,55.0'' 3] [] =
       [\<lparr>ts = 1, temperature = Fin 25, humidity = Fin 55\<rparr>,
        \<lparr>ts = 2, temperature = Fin 28.75, humidity = Fin 80.25\<rparr>]
   \<and> list_all within_bounds
       (run py_float prints [Message ''25.0,55.0'' 1, Tick 0.25 0.75 2, Message ''100.0,55.0'' 3] [])"
proof -
  have a: "list_all event_ok [Message ''25.0,55.0'' 1, Tick 0.25 0.75 2, Message ''100.0,55.0'' 3]"
    by (simp add: unit_draw_def)
  have r: "run py_float prints [Message ''25.0,55.0'' 1, Tick 0.25 0.75 2, Message ''100.0,55.0'' 3] [] =
       [\<lparr>ts = 1, temperature = Fin 25, humidity = Fin 55\<rparr>,
        \<lparr>ts = 2, temperature = Fin 28.75, humidity = Fin 80.25\<rparr>]"
    using utf8_valid_25_55 utf8_valid_100_55
    by (simp add: produce_message spec_fields_25_55 spec_fields_100_55 checked_append_def
        in_range_def simulate_step_def safe_append_def deque_append_def MAX_POINTS_def uniform_def
        del: produce.simps(1))
  from store_within_bounds [OF a, of py_float prints] a r show ?thesis by blast
qed

section \<open>Properties of the analytics and of the polling update\<close>

lemma correlation_is_corr: "correlation df = corr df"
proof (cases "corr df")
  case (Inl e)
  then show ?thesis by (simp add: correlation_def)
next
  case (Inr c)
  then have "shape c = (2, 2)"
    by (auto simp: corr_def series_def shape_def split: if_splits)
  with Inr show ?thesis by (simp add: correlation_def)
qed

text \<open>
  C6. The code does not give the identity matrix for a degenerate window. The matrix that
  \<open>corr\<close> returns always has shape (2, 2), so the substitution is never made: with one
  sample in the window every entry is \<open>NaN\<close>, and with a constant temperature the entries
  of the temperature row and column are \<open>NaN\<close>.
\<close>

theorem correlation_degenerate:
  "correlation df = corr df
   \<and> df_buf 600000000 [\<lparr>ts = 599999999, temperature = Fin 25, humidity = Fin 55\<rparr>] 5 =
       Inr \<lparr>columns = [''ts'', ''temperature'', ''humidity''],
            rows = [\<lparr>ts = 599999999, temperature = Fin 25, humidity = Fin 55\<rparr>]\<rparr>
   \<and> correlation \<lparr>columns = [''ts'', ''temperature'', ''humidity''],
         rows = [\<lparr>ts = 599999999, temperature = Fin 25, humidity = Fin 55\<rparr>]\<rparr> =
       Inr [[NaN, NaN], [NaN, NaN]]
   \<and> correlation \<lparr>columns = [''ts'', ''temperature'', ''humidity''],
         rows = [\<lparr>ts = 599999998, temperature = Fin 25, humidity = Fin 55\<rparr>,
                 \<lparr>ts = 599999999, temperature = Fin 25, humidity = Fin 57\<rparr>]\<rparr> =
       Inr [[NaN, NaN], [NaN, Fin 1]]"
proof (intro conjI)
  show "correlation df = corr df" by (rule correlation_is_corr)
next
  show "df_buf 600000000 [\<lparr>ts = 599999999, temperature = Fin 25, humidity = Fin 55\<rparr>] 5 =
       Inr \<lparr>columns = [''ts'', ''temperature'', ''humidity''],
            rows = [\<lparr>ts = 599999999, temperature = Fin 25, humidity = Fin 55\<rparr>]\<rparr>"
    by (simp add: df_buf_nonempty minutes_def)
next
  show "correlation \<lparr>columns = [''ts'', ''temperature'', ''humidity''],
         rows = [\<lparr>ts = 599999999, temperature = Fin 25, humidity = Fin 55\<rparr>]\<rparr> =
       Inr [[NaN, NaN], [NaN, NaN]]"
    by (simp add: correlation_def corr_def series_def nancorr_def welford_step_def shape_def)
next
  show "correlation \<lparr>columns = [''ts'', ''temperature'', ''humidity''],
         rows = [\<lparr>ts = 599999998, temperature = Fin 25, humidity = Fin 55\<rparr>,
                 \<lparr>ts = 599999999, temperature = Fin 25, humidity = Fin 57\<rparr>]\<rparr> =
       Inr [[NaN, NaN], [NaN, Fin 1]]"
    by (simp add: correlation_def corr_def series_def nancorr_def welford_step_def shape_def
        Let_def)
qed

text \<open>
  C9. As shipped, \<open>update\<close> catches nothing, because it never runs: line 236, in its
  \<open>try\<close> body, is the three words FINAL fixed heatmap and no comment, so compiling the file
  raises \<open>SyntaxError\<close>, and whatever a poll would do, it ends in that error instead of a
  placeholder.
\<close>

theorem update_not_compiled:
  "form_of line_236 = Two_names ''FINAL'' ''fixed''
   \<and> compile_line line_236 = Inl SyntaxError
   \<and> shipped poll = Inl SyntaxError"
proof -
  have f: "form_of line_236 = Two_names ''FINAL'' ''fixed''"
    by (simp add: form_of_def line_236_def is_blank_def is_name_char_def is_name_start_def
        is_digit_def byte_def)
  then have c: "compile_line line_236 = Inl SyntaxError"
    by (simp add: compile_line_def py_keywords_def)
  then have "shipped poll = Inl SyntaxError"
    by (simp add: shipped_def)
  with f c show ?thesis by blast
qed


section \<open>Properties of snapshots\<close>

lemma those_map_list_all2:
  "list_all2 (\<lambda>a s. f a = Some s) xs ys \<Longrightarrow> those (map f xs) = Some ys"
  by (induction xs ys rule: list_all2_induct) simp_all

lemma list_all2_deque_append:
  assumes "list_all2 P xs ys" and "P x y"
  shows "list_all2 P (deque_append n xs x) (deque_append n ys y)"
proof -
  from assms have a: "list_all2 P (xs @ [x]) (ys @ [y])"
    by (simp add: list_all2_appendI)
  then have "list_all2 P (tl (xs @ [x])) (tl (ys @ [y]))"
    by (cases "xs @ [x]"; cases "ys @ [y]") auto
  moreover from assms(1) have "length xs = length ys"
    by (rule list_all2_lengthD)
  ultimately show ?thesis
    using a by (simp add: deque_append_def Let_def)
qed

lemma holds_safe_append:
  assumes "holds hp b buffer"
  shows "holds (heap_safe_append b now t h hp) b (safe_append now t h buffer)"
proof -
  from assms obtain refs where b: "b < length hp" and d: "hp ! b = Deque refs"
    and r: "list_all2 (\<lambda>a s. read_dict hp a = Some s) refs buffer"
    by (auto simp: holds_def lookup_def split: if_splits obj.splits option.splits)
  let ?s = "\<lparr>ts = now, temperature = t, humidity = h\<rparr>"
  let ?hp1 = "hp @ [Dict ?s]"
  let ?hp' = "?hp1[b := Deque (deque_append MAX_POINTS refs (length hp))]"
  have hp': "heap_safe_append b now t h hp = ?hp'"
    using b d by (simp add: heap_safe_append_def alloc_def lookup_def nth_append)
  have keep: "read_dict ?hp' a = Some s" if "read_dict hp a = Some s" for a s
  proof -
    from that have "a < length hp" and "hp ! a = Dict s"
      by (auto simp: read_dict_def lookup_def split: if_splits obj.splits)
    with d have "a \<noteq> b" by auto
    with \<open>a < length hp\<close> \<open>hp ! a = Dict s\<close> show ?thesis
      by (simp add: read_dict_def lookup_def nth_append)
  qed
  from r have r': "list_all2 (\<lambda>a s. read_dict ?hp' a = Some s) refs buffer"
    by (rule list_all2_mono) (rule keep)
  have new: "read_dict ?hp' (length hp) = Some ?s"
    using b by (simp add: read_dict_def lookup_def nth_append)
  have "list_all2 (\<lambda>a s. read_dict ?hp' a = Some s)
      (deque_append MAX_POINTS refs (length hp)) (deque_append MAX_POINTS buffer ?s)"
    using r' new by (rule list_all2_deque_append)
  then show ?thesis
    using b unfolding hp' by (simp add: holds_def lookup_def safe_append_def)
qed

lemma heap_safe_append_frame:
  assumes "holds hp b buffer" and "r < length hp" and "r \<noteq> b"
  shows "length hp \<le> length (heap_safe_append b now t h hp)
    \<and> heap_safe_append b now t h hp ! r = hp ! r"
  using assms
  by (auto simp: heap_safe_append_def alloc_def lookup_def holds_def nth_append
      split: option.splits obj.splits)

lemma heap_appends_holds:
  "holds hp b buffer \<Longrightarrow> holds (heap_appends b rs hp) b (appends rs buffer)"
  by (induction rs arbitrary: hp buffer) (auto simp: holds_safe_append)

lemma heap_appends_frame:
  "holds hp b buffer \<Longrightarrow> r < length hp \<Longrightarrow> r \<noteq> b \<Longrightarrow> heap_appends b rs hp ! r = hp ! r"
proof (induction rs arbitrary: hp buffer)
  case Nil
  then show ?case by simp
next
  case (Cons x rs)
  obtain now t h where x: "x = (now, t, h)" by (cases x) auto
  from Cons.prems have 1: "holds (heap_safe_append b now t h hp) b (safe_append now t h buffer)"
    by (simp add: holds_safe_append)
  from Cons.prems have 2: "length hp \<le> length (heap_safe_append b now t h hp)
    \<and> heap_safe_append b now t h hp ! r = hp ! r"
    by (rule heap_safe_append_frame)
  with Cons.prems have 3: "r < length (heap_safe_append b now t h hp)" by simp
  from Cons.IH [OF 1 3 Cons.prems(3)] 2 show ?case by (simp add: x)
qed

lemma read_dict_append: "read_dict hp a = Some s \<Longrightarrow> read_dict (hp @ xs) a = Some s"
  by (auto simp: read_dict_def lookup_def nth_append split: if_splits)

lemma holds_append: "holds hp b buffer \<Longrightarrow> holds (hp @ xs) b buffer"
proof -
  assume h: "holds hp b buffer"
  then obtain refs where b: "b < length hp" and d: "hp ! b = Deque refs"
    and r: "list_all2 (\<lambda>a s. read_dict hp a = Some s) refs buffer"
    by (auto simp: holds_def lookup_def split: if_splits obj.splits option.splits)
  from r have "list_all2 (\<lambda>a s. read_dict (hp @ xs) a = Some s) refs buffer"
    by (rule list_all2_mono) (rule read_dict_append)
  with b d show ?thesis by (simp add: holds_def lookup_def nth_append)
qed

lemma heap_df_buf_copy:
  assumes "holds hp b buffer"
  shows "\<exists>r f new. heap_df_buf b now mins hp = (Inr r, hp @ new)
     \<and> length hp \<le> r \<and> r < length (hp @ new) \<and> (hp @ new) ! r = Frame f
     \<and> df_buf now buffer mins = Inr f"
proof -
  from assms obtain refs where b: "b < length hp" and d: "hp ! b = Deque refs"
    and r: "list_all2 (\<lambda>a s. read_dict hp a = Some s) refs buffer"
    by (auto simp: holds_def lookup_def split: if_splits obj.splits option.splits)
  have l: "lookup hp b = Some (Deque refs)"
    using b d by (simp add: lookup_def)
  from r have len: "length refs = length buffer" by (rule list_all2_lengthD)
  show ?thesis
  proof (cases "buffer = []")
    case True
    with len have "refs = []" by simp
    with True l show ?thesis
      by (simp add: heap_df_buf_def alloc_def alloc_frame_def df_buf_def nth_append)
  next
    case False
    with len have ne: "refs \<noteq> []" by auto
    from r have "list_all2 (\<lambda>a s. read_dict (hp @ [PyList refs]) a = Some s) refs buffer"
      by (rule list_all2_mono) (rule read_dict_append)
    then have t: "those (map (read_dict (hp @ [PyList refs])) refs) = Some buffer"
      by (rule those_map_list_all2)
    show ?thesis
    proof (cases "0 < mins")
      case True
      with False ne l t show ?thesis
        by (simp add: heap_df_buf_def alloc_def alloc_frame_def df_buf_nonempty DataFrame_def
            column_def ts_after_def sort_values_ts_def lookup_def nth_append)
    next
      case False
      with \<open>buffer \<noteq> []\<close> ne l t show ?thesis
        by (simp add: heap_df_buf_def alloc_def alloc_frame_def df_buf_nonempty DataFrame_def
            column_def ts_after_def sort_values_ts_def lookup_def nth_append)
    qed
  qed
qed

text \<open>
  C8. A query changes no object that existed before it, so the store holds the same
  samples afterwards; it returns a newly allocated frame, equal to the result of
  \<open>df_buf\<close> on the store's contents; and appends made after it, which do change the store,
  leave that frame as it was.
\<close>

theorem query_is_independent_copy:
  assumes "holds hp b buffer"
  shows "\<exists>r f hp'. heap_df_buf b now mins hp = (Inr r, hp')
     \<and> take (length hp) hp' = hp \<and> holds hp' b buffer
     \<and> length hp \<le> r \<and> r < length hp' \<and> hp' ! r = Frame f
     \<and> df_buf now buffer mins = Inr f
     \<and> heap_appends b rs hp' ! r = Frame f
     \<and> holds (heap_appends b rs hp') b (appends rs buffer)"
proof -
  from heap_df_buf_copy [OF assms, of now mins]
  obtain r f new where q: "heap_df_buf b now mins hp = (Inr r, hp @ new)"
    and r: "length hp \<le> r" "r < length (hp @ new)" and f: "(hp @ new) ! r = Frame f"
    and d: "df_buf now buffer mins = Inr f"
    by blast
  have h: "holds (hp @ new) b buffer"
    using assms by (rule holds_append)
  from assms have "b < length hp"
    by (auto simp: holds_def lookup_def split: if_splits)
  with r have "r \<noteq> b" by simp
  with h r have "heap_appends b rs (hp @ new) ! r = (hp @ new) ! r"
    by (simp add: heap_appends_frame)
  moreover have "holds (heap_appends b rs (hp @ new)) b (appends rs buffer)"
    using h by (rule heap_appends_holds)
  ultimately show ?thesis
    using q r f d h by (intro exI [of _ r] exI [of _ f] exI [of _ "hp @ new"]) simp
qed

theorem query_is_independent_copy_witness:
  "holds [Deque [1, 2],
          Dict \<lparr>ts = 599999999, temperature = Fin 25, humidity = Fin 55\<rparr>,
          Dict \<lparr>ts = 599999990, temperature = Fin 26, humidity = Fin 56\<rparr>] 0
     [\<lparr>ts = 599999999, temperature = Fin 25, humidity = Fin 55\<rparr>,
      \<lparr>ts = 599999990, temperature = Fin 26, humidity = Fin 56\<rparr>]
   \<and> (\<exists>r f hp'. heap_df_buf 0 600000000 5
         [Deque [1, 2],
          Dict \<lparr>ts = 599999999, temperature = Fin 25, humidity = Fin 55\<rparr>,
          Dict \<lparr>ts = 599999990, temperature = Fin 26, humidity = Fin 56\<rparr>] = (Inr r, hp')
       \<and> r = 6
       \<and> f = \<lparr>columns = [''ts'', ''temperature'', ''humidity''],
              rows = [\<lparr>ts = 599999990, temperature = Fin 26, humidity = Fin 56\<rparr>,
                      \<lparr>ts = 599999999, temperature = Fin 25, humidity = Fin 55\<rparr>]\<rparr>
       \<and> hp' ! r = Frame f
       \<and> heap_appends 0 [(600000001, Fin 27, Fin 57)] hp' ! r = Frame f
       \<and> holds (heap_appends 0 [(600000001, Fin 27, Fin 57)] hp') 0
           [\<lparr>ts = 599999999, temperature = Fin 25, humidity = Fin 55\<rparr>,
            \<lparr>ts = 599999990, temperature = Fin 26, humidity = Fin 56\<rparr>,
            \<lparr>ts = 600000001, temperature = Fin 27, humidity = Fin 57\<rparr>])"
proof -
  let ?s1 = "\<lparr>ts = 599999999, temperature = Fin 25, humidity = Fin 55\<rparr>"
  let ?s2 = "\<lparr>ts = 599999990, temperature = Fin 26, humidity = Fin 56\<rparr>"
  let ?hp = "[Deque [1, 2], Dict ?s1, Dict ?s2]"
  have h: "holds ?hp 0 [?s1, ?s2]"
    by (simp add: holds_def lookup_def read_dict_def)
  have a: "appends [(600000001, Fin 27, Fin 57)] [?s1, ?s2] =
      [?s1, ?s2, \<lparr>ts = 600000001, temperature = Fin 27, humidity = Fin 57\<rparr>]"
    by (simp add: safe_append_def deque_append_def MAX_POINTS_def)
  have q: "fst (heap_df_buf 0 600000000 5 ?hp) = Inr 6"
    by (simp add: heap_df_buf_def alloc_def alloc_frame_def lookup_def read_dict_def
        DataFrame_def column_def ts_after_def sort_values_ts_def minutes_def)
  have d: "df_buf 600000000 [?s1, ?s2] 5 =
      Inr \<lparr>columns = [''ts'', ''temperature'', ''humidity''], rows = [?s2, ?s1]\<rparr>"
    by (simp add: df_buf_nonempty minutes_def)
  from query_is_independent_copy [OF h, of 600000000 5 "[(600000001, Fin 27, Fin 57)]"] q d a h
  show ?thesis
    by auto
qed

end
